theory Spec2Isabelle
  imports Main "HOL-Library.Sublist" "HOL-Library.AList"
begin

section \<open>The log summarizer \<open>tools/summarize_logs.py\<close>\<close>

text \<open>
  The program reads text from standard input, decodes it with \<open>json.loads\<close> (as one value,
  or line by line when that fails), prints a header and then one tab-separated row for
  every event that is a bet or a winner announcement of the given team.

  Modelling decisions.
  \<^item> A decoded JSON value is a \<open>json\<close>. A Python \<open>dict\<close> is an association list in insertion
    order (the decoder builds it with every key once; \<open>map_of\<close> reads it). A Python
    \<open>float\<close> is carried as the text that \<open>str\<close> gives for it: its arithmetic is not modelled.
  \<^item> Text is a HOL \<open>string\<close>. A character is one byte of the UTF-8 text; the model is exact
    on ASCII text. Python's \<open>str.strip\<close>, \<open>str.splitlines\<close> and the regular-expression
    classes \<open>\d\<close> and \<open>\w\<close> also know characters beyond ASCII; the model has their
    ASCII part.
  \<^item> A Python exception is a value of \<open>py_error\<close>; every operation that can raise returns
    \<open>py_error + 'a\<close>, with \<open>Inl\<close> for the exception.
  \<^item> Standard output is the list of the lines printed so far, one per call of \<open>print\<close>.
\<close>

subsection \<open>Values and exceptions\<close>

datatype json =
    JNull
  | JBool bool
  | JInt int
  | JFloat string
  | JStr string
  | JArr "json list"
  | JObj "(string \<times> json) list"

datatype py_error = AttributeError | TypeError | JSONDecodeError | RecursionError

subsection \<open>Characters and text\<close>

definition TAB :: char where "TAB = CHR 0x09"
definition LF :: char where "LF = CHR 0x0A"
definition CR :: char where "CR = CHR 0x0D"

definition is_digit :: "char \<Rightarrow> bool" where
  "is_digit c = (c \<in> set ''0123456789'')"

text \<open>\<open>\w\<close> on ASCII: letters, digits and the underscore.\<close>

definition is_word :: "char \<Rightarrow> bool" where
  "is_word c = (c \<in> set ''abcdefghijklmnopqrstuvwxyzABCDEFGHIJKLMNOPQRSTUVWXYZ0123456789_'')"

text \<open>\<open>str.isspace\<close> on ASCII: tab, LF, VT, FF, CR, the separators 0x1C to 0x1F, space.\<close>

definition is_space :: "char \<Rightarrow> bool" where
  "is_space c = (c \<in> set [CHR 0x09, CHR 0x0A, CHR 0x0B, CHR 0x0C, CHR 0x0D,
                            CHR 0x1C, CHR 0x1D, CHR 0x1E, CHR 0x1F, CHR 0x20])"

text \<open>The line boundaries of \<open>str.splitlines\<close> on ASCII (CR LF counts as one).\<close>

definition is_linebreak :: "char \<Rightarrow> bool" where
  "is_linebreak c = (c \<in> set [CHR 0x0A, CHR 0x0B, CHR 0x0C, CHR 0x0D,
                               CHR 0x1C, CHR 0x1D, CHR 0x1E])"

definition strip :: "string \<Rightarrow> string" where
  "strip s = rev (dropWhile is_space (rev (dropWhile is_space s)))"

text \<open>\<open>splitlines_from cur s\<close>: the lines of \<open>s\<close>, the first one prefixed by the reversed
  \<open>cur\<close>; a last line is returned only when it is not empty.\<close>

fun splitlines_from :: "string \<Rightarrow> string \<Rightarrow> string list" where
  "splitlines_from cur [] = (if cur = [] then [] else [rev cur])"
| "splitlines_from cur (c # cs) =
     (if c = CR then
        (case cs of
           [] \<Rightarrow> [rev cur]
         | d # ds \<Rightarrow> if d = LF then rev cur # splitlines_from [] ds
                     else rev cur # splitlines_from [] (d # ds))
      else if is_linebreak c then rev cur # splitlines_from [] cs
      else splitlines_from (c # cur) cs)"

definition splitlines :: "string \<Rightarrow> string list" where
  "splitlines s = splitlines_from [] s"

subsection \<open>\<open>str\<close> and \<open>repr\<close> of a value\<close>

definition digit_char :: "nat \<Rightarrow> char" where
  "digit_char d = ''0123456789abcdef'' ! (d mod 16)"

text \<open>The decimal digits of a natural number, most significant first.\<close>

function str_of_nat :: "nat \<Rightarrow> string" where
  "str_of_nat n = (if n < 10 then [digit_char n] else str_of_nat (n div 10) @ [digit_char (n mod 10)])"
  by pat_completeness auto
termination
  by (relation "measure (\<lambda>n. n)") auto

declare str_of_nat.simps [simp del]

definition str_of_int :: "int \<Rightarrow> string" where
  "str_of_int i = (if i < 0 then CHR ''-'' # str_of_nat (nat (- i)) else str_of_nat (nat i))"

text \<open>\<open>repr\<close> of a string: single quotes, unless the text has a single quote and no double
  quote; backslash, the quote, tab, LF and CR are escaped, the other control characters
  are written \<open>\xNN\<close>.\<close>

definition repr_char :: "char \<Rightarrow> char \<Rightarrow> string" where
  "repr_char q c =
     (if c = q \<or> c = CHR 0x5C then [CHR 0x5C, c]
      else if c = TAB then [CHR 0x5C, CHR ''t'']
      else if c = LF then [CHR 0x5C, CHR ''n'']
      else if c = CR then [CHR 0x5C, CHR ''r'']
      else if (of_char c :: nat) < 32 \<or> c = CHR 0x7F then
        [CHR 0x5C, CHR ''x'', digit_char (of_char c div 16), digit_char (of_char c mod 16)]
      else [c])"

definition repr_str :: "string \<Rightarrow> string" where
  "repr_str s =
     (let q = (if CHR 0x27 \<in> set s \<and> CHR 0x22 \<notin> set s then CHR 0x22 else CHR 0x27)
      in q # concat (map (repr_char q) s) @ [q])"

fun join :: "string \<Rightarrow> string list \<Rightarrow> string" where
  "join sep [] = []"
| "join sep [x] = x"
| "join sep (x # y # ys) = x @ sep @ join sep (y # ys)"

fun py_repr :: "json \<Rightarrow> string" where
  "py_repr JNull = ''None''"
| "py_repr (JBool b) = (if b then ''True'' else ''False'')"
| "py_repr (JInt i) = str_of_int i"
| "py_repr (JFloat f) = f"
| "py_repr (JStr s) = repr_str s"
| "py_repr (JArr xs) = ''['' @ join '', '' (map py_repr xs) @ '']''"
| "py_repr (JObj kvs) =
     ''{'' @ join '', '' (map (\<lambda>kv. repr_str (fst kv) @ '': '' @ py_repr (snd kv)) kvs) @ ''}''"

text \<open>What an f-string puts for \<open>{v}\<close>: \<open>str(v)\<close>, which is the text itself for a string and
  \<open>repr\<close> for every other value.\<close>

definition py_str :: "json \<Rightarrow> string" where
  "py_str v = (case v of JStr s \<Rightarrow> s | _ \<Rightarrow> py_repr v)"

subsection \<open>The operations of Python the program uses\<close>

text \<open>\<open>obj.get(key, default)\<close> on the pairs of a dict, and on any value: only a dict has
  the method.\<close>

definition dict_get :: "(string \<times> json) list \<Rightarrow> string \<Rightarrow> json \<Rightarrow> json" where
  "dict_get kvs k d = (case map_of kvs k of None \<Rightarrow> d | Some v \<Rightarrow> v)"

definition py_get :: "json \<Rightarrow> string \<Rightarrow> json \<Rightarrow> py_error + json" where
  "py_get obj k d =
     (case obj of
        JObj kvs \<Rightarrow> Inr (dict_get kvs k d)
      | _ \<Rightarrow> Inl AttributeError)"

text \<open>\<open>len(v)\<close>.\<close>

definition py_len :: "json \<Rightarrow> py_error + nat" where
  "py_len v =
     (case v of
        JArr xs \<Rightarrow> Inr (length xs)
      | JStr s \<Rightarrow> Inr (length s)
      | JObj kvs \<Rightarrow> Inr (length kvs)
      | _ \<Rightarrow> Inl TypeError)"

text \<open>\<open>team in v\<close> for a string \<open>team\<close>: substring of a string, element of a list, key of
  a dict; the other values are not containers.\<close>

definition py_in :: "string \<Rightarrow> json \<Rightarrow> py_error + bool" where
  "py_in team v =
     (case v of
        JStr s \<Rightarrow> Inr (sublist team s)
      | JArr xs \<Rightarrow> Inr (JStr team \<in> set xs)
      | JObj kvs \<Rightarrow> Inr (team \<in> fst ` set kvs)
      | _ \<Rightarrow> Inl TypeError)"

subsection \<open>\<open>street_from_state\<close>\<close>

text \<open>The dict literal \<open>{0: "PRE", 3: "FLOP", 4: "TURN", 5: "RIVER"}\<close> and its
  \<open>.get(n, str(n))\<close>.\<close>

definition street_table :: "(nat \<times> string) list" where
  "street_table = [(0, ''PRE''), (3, ''FLOP''), (4, ''TURN''), (5, ''RIVER'')]"

definition street_from_state :: "json \<Rightarrow> py_error + string" where
  "street_from_state state =
     (case py_get state ''community_cards'' (JArr []) of
        Inl e \<Rightarrow> Inl e
      | Inr cc \<Rightarrow>
          (case py_len cc of
             Inl e \<Rightarrow> Inl e
           | Inr n \<Rightarrow> Inr (case map_of street_table n of None \<Rightarrow> str_of_nat n | Some s \<Rightarrow> s)))"

subsection \<open>The amount: \<open>re.search(r"bet of (\d+)|bet of 0 \((\w+)\)", msg)\<close>\<close>

text \<open>A match object, as far as the program reads it: the two capture groups, each one
  present or not.\<close>

datatype re_match = Match (group1: "string option") (group2: "string option")

text \<open>The first alternative at the start of \<open>s\<close>: \<open>bet of\<close>, a space and the longest
  nonempty run of digits, which is group 1.\<close>

definition alt_digits :: "string \<Rightarrow> re_match option" where
  "alt_digits s =
     (if prefix ''bet of '' s \<and> takeWhile is_digit (drop 7 s) \<noteq> []
      then Some (Match (Some (takeWhile is_digit (drop 7 s))) None)
      else None)"

text \<open>The second alternative at the start of \<open>s\<close>: \<open>bet of 0 (\<close>, a nonempty run of word
  characters, which is group 2, and \<open>)\<close>. A closing parenthesis is no word character, so
  only the longest run can be followed by one.\<close>

definition alt_zero_word :: "string \<Rightarrow> re_match option" where
  "alt_zero_word s =
     (if prefix ''bet of 0 ('' s \<and> takeWhile is_word (drop 10 s) \<noteq> []
         \<and> prefix '')'' (dropWhile is_word (drop 10 s))
      then Some (Match None (Some (takeWhile is_word (drop 10 s))))
      else None)"

text \<open>At one position the alternatives are tried from left to right.\<close>

definition match_here :: "string \<Rightarrow> re_match option" where
  "match_here s = (case alt_digits s of Some m \<Rightarrow> Some m | None \<Rightarrow> alt_zero_word s)"

text \<open>\<open>re.search\<close>: the match at the leftmost position that has one.\<close>

fun re_search :: "string \<Rightarrow> re_match option" where
  "re_search [] = match_here []"
| "re_search (c # cs) =
     (case match_here (c # cs) of Some m \<Rightarrow> Some m | None \<Rightarrow> re_search cs)"

text \<open>\<open>amt = "0"; if m: amt = m.group(1) or "0"\<close>. A group that is \<open>None\<close> or empty is
  false.\<close>

definition amount_of :: "string \<Rightarrow> string" where
  "amount_of msg =
     (case re_search msg of
        None \<Rightarrow> ''0''
      | Some m \<Rightarrow> (case group1 m of None \<Rightarrow> ''0'' | Some g \<Rightarrow> if g = [] then ''0'' else g))"

text \<open>The conditional expression that computes \<open>act\<close>.\<close>

definition action_of :: "string \<Rightarrow> string \<Rightarrow> string" where
  "action_of msg amt =
     (if sublist ''(call)'' msg then ''call''
      else if sublist ''(raise)'' msg then ''raise''
      else if sublist ''(check)'' msg then ''check''
      else (if amt \<noteq> ''0'' then ''bet''
            else if sublist ''(fold)'' msg then ''fold''
            else ''?''))"

subsection \<open>The main pass\<close>

text \<open>A printed row: the fields with a tab between them.\<close>

definition tsv :: "string list \<Rightarrow> string" where
  "tsv fields = join [TAB] fields"

definition header :: string where
  "header = tsv [''round'', ''street'', ''action'', ''amount'', ''pot'', ''buyin'', ''message'']"

text \<open>The body of the first branch. \<open>re.search\<close> takes a string only.\<close>

definition bet_row :: "json \<Rightarrow> json \<Rightarrow> py_error + string" where
  "bet_row gs msg =
     (case py_get gs ''round'' (JStr '''') of
        Inl e \<Rightarrow> Inl e
      | Inr rnd \<Rightarrow>
     (case street_from_state gs of
        Inl e \<Rightarrow> Inl e
      | Inr st \<Rightarrow>
     (case msg of
        JStr m \<Rightarrow>
          (let amt = amount_of m;
               act = action_of m amt
           in case py_get gs ''pot'' (JStr '''') of
                Inl e \<Rightarrow> Inl e
              | Inr pot \<Rightarrow>
             (case py_get gs ''current_buy_in'' (JStr '''') of
                Inl e \<Rightarrow> Inl e
              | Inr buyin \<Rightarrow>
                  Inr (tsv [py_str rnd, st, act, amt, py_str pot, py_str buyin, m])))
      | _ \<Rightarrow> Inl TypeError)))"

text \<open>The body of the second branch.\<close>

definition won_row :: "json \<Rightarrow> json \<Rightarrow> py_error + string" where
  "won_row gs msg =
     (case py_get gs ''round'' (JStr '''') of
        Inl e \<Rightarrow> Inl e
      | Inr rnd \<Rightarrow>
     (case street_from_state gs of
        Inl e \<Rightarrow> Inl e
      | Inr st \<Rightarrow>
     (case py_get gs ''pot'' (JStr '''') of
        Inl e \<Rightarrow> Inl e
      | Inr pot \<Rightarrow>
     (case py_get gs ''current_buy_in'' (JStr '''') of
        Inl e \<Rightarrow> Inl e
      | Inr buyin \<Rightarrow>
          Inr (tsv [py_str rnd, st, ''won'', '''', py_str pot, py_str buyin, py_str msg])))))"

text \<open>\<open>t == name and team in msg\<close>: the membership test runs only when the types are
  equal.\<close>

definition type_and_team :: "string \<Rightarrow> json \<Rightarrow> string \<Rightarrow> json \<Rightarrow> py_error + bool" where
  "type_and_team name t team msg = (if t = JStr name then py_in team msg else Inr False)"

text \<open>One turn of the loop: the line it prints, if any, or the exception it raises.\<close>

definition process_event :: "string \<Rightarrow> json \<Rightarrow> py_error + string option" where
  "process_event team ev =
     (case py_get ev ''type'' (JStr '''') of
        Inl e \<Rightarrow> Inl e
      | Inr t \<Rightarrow>
     (case py_get ev ''game_state'' (JObj []) of
        Inl e \<Rightarrow> Inl e
      | Inr gs \<Rightarrow>
     (case py_get ev ''message'' (JStr '''') of
        Inl e \<Rightarrow> Inl e
      | Inr msg \<Rightarrow>
     (case type_and_team ''bet'' t team msg of
        Inl e \<Rightarrow> Inl e
      | Inr True \<Rightarrow> map_sum id Some (bet_row gs msg)
      | Inr False \<Rightarrow>
     (case type_and_team ''winner_announcement'' t team msg of
        Inl e \<Rightarrow> Inl e
      | Inr True \<Rightarrow> map_sum id Some (won_row gs msg)
      | Inr False \<Rightarrow> Inr None)))))"

text \<open>The loop over the events: the lines printed, and the exception that ended the loop,
  if one did. What was printed before an exception stays printed.\<close>

fun main_loop :: "string \<Rightarrow> json list \<Rightarrow> string list \<times> py_error option" where
  "main_loop team [] = ([], None)"
| "main_loop team (ev # evs) =
     (case process_event team ev of
        Inl e \<Rightarrow> ([], Some e)
      | Inr out \<Rightarrow>
          (case main_loop team evs of
             (rows, r) \<Rightarrow> ((case out of None \<Rightarrow> rows | Some row \<Rightarrow> row # rows), r)))"

text \<open>\<open>for ev in events\<close>: a list gives its elements, a dict its keys, a string its
  characters; the other values are not iterable.\<close>

definition py_iter :: "json \<Rightarrow> py_error + json list" where
  "py_iter v =
     (case v of
        JArr xs \<Rightarrow> Inr xs
      | JObj kvs \<Rightarrow> Inr (map (\<lambda>kv. JStr (fst kv)) kvs)
      | JStr s \<Rightarrow> Inr (map (\<lambda>c. JStr [c]) s)
      | _ \<Rightarrow> Inl TypeError)"

text \<open>A run of the program: what it printed, and the uncaught exception, if any. The exit
  status is 0 without an exception and 1 with one.\<close>

record run =
  printed :: "string list"
  raised :: "py_error option"

definition exit_status :: "run \<Rightarrow> nat" where
  "exit_status r = (case raised r of None \<Rightarrow> 0 | Some e \<Rightarrow> 1)"

text \<open>The bytes on standard output: every printed line and its newline.\<close>

definition stdout_text :: "run \<Rightarrow> string" where
  "stdout_text r = concat (map (\<lambda>l. l @ [LF]) (printed r))"

text \<open>The program from the \<open>print\<close> of the header on, given the decoded value.\<close>

definition summarize :: "string \<Rightarrow> json \<Rightarrow> run" where
  "summarize team events =
     (case py_iter events of
        Inl e \<Rightarrow> \<lparr>printed = [header], raised = Some e\<rparr>
      | Inr evs \<Rightarrow>
          (case main_loop team evs of
             (rows, r) \<Rightarrow> \<lparr>printed = header # rows, raised = r\<rparr>))"

subsection \<open>\<open>json.loads\<close>\<close>

text \<open>
  The decoder of Python's \<open>json\<close> module, as a recursive descent over the text: \<open>scan_once\<close>
  reads one value and returns it with the text that follows. Every failure of the decoder
  is a \<open>JSONDecodeError\<close>. The recursion carries a budget that every call lowers by one;
  a call without budget is a \<open>RecursionError\<close>, and \<open>json_loads\<close> starts with a budget of
  twice the length of the text plus one, which is never used up (\<open>json_loads_error\<close>
  below): the depth at which the interpreter itself gives up is not modelled. The
  parameter \<open>fl\<close> gives, for the text of a number with a fraction or an exponent, the text
  that \<open>str\<close> gives for the float.
\<close>

definition json_ws :: "char \<Rightarrow> bool" where
  "json_ws c = (c \<in> set [CHR 0x20, CHR 0x09, CHR 0x0A, CHR 0x0D])"

definition skip_ws :: "string \<Rightarrow> string" where
  "skip_ws s = dropWhile json_ws s"

definition hex_table :: "(char \<times> nat) list" where
  "hex_table =
     [(CHR ''0'', 0), (CHR ''1'', 1), (CHR ''2'', 2), (CHR ''3'', 3), (CHR ''4'', 4),
      (CHR ''5'', 5), (CHR ''6'', 6), (CHR ''7'', 7), (CHR ''8'', 8), (CHR ''9'', 9),
      (CHR ''a'', 10), (CHR ''b'', 11), (CHR ''c'', 12), (CHR ''d'', 13), (CHR ''e'', 14),
      (CHR ''f'', 15), (CHR ''A'', 10), (CHR ''B'', 11), (CHR ''C'', 12), (CHR ''D'', 13),
      (CHR ''E'', 14), (CHR ''F'', 15)]"

text \<open>The four hexadecimal digits of a \<open>\uXXXX\<close> escape.\<close>

definition hex4 :: "string \<Rightarrow> nat option" where
  "hex4 s =
     (case map (map_of hex_table) (take 4 s) of
        [Some a, Some b, Some c, Some d] \<Rightarrow> Some (((a * 16 + b) * 16 + c) * 16 + d)
      | _ \<Rightarrow> None)"

text \<open>The UTF-8 bytes of a code point.\<close>

definition utf8 :: "nat \<Rightarrow> string" where
  "utf8 cp =
     (if cp < 0x80 then [char_of cp]
      else if cp < 0x800 then [char_of (0xC0 + cp div 64), char_of (0x80 + cp mod 64)]
      else if cp < 0x10000 then
        [char_of (0xE0 + cp div 4096), char_of (0x80 + cp div 64 mod 64),
         char_of (0x80 + cp mod 64)]
      else
        [char_of (0xF0 + cp div 262144), char_of (0x80 + cp div 4096 mod 64),
         char_of (0x80 + cp div 64 mod 64), char_of (0x80 + cp mod 64)])"

text \<open>The one-letter escapes of a JSON string.\<close>

definition escape_table :: "(char \<times> char) list" where
  "escape_table =
     [(CHR 0x22, CHR 0x22), (CHR 0x5C, CHR 0x5C), (CHR ''/'', CHR ''/''),
      (CHR ''b'', CHR 0x08), (CHR ''f'', CHR 0x0C), (CHR ''n'', CHR 0x0A),
      (CHR ''r'', CHR 0x0D), (CHR ''t'', CHR 0x09)]"

definition with_prefix :: "string \<Rightarrow> py_error + (string \<times> string) \<Rightarrow> py_error + (string \<times> string)" where
  "with_prefix p r = (case r of Inl e \<Rightarrow> Inl e | Inr (s, rest) \<Rightarrow> Inr (p @ s, rest))"

text \<open>\<open>scanstring\<close>, from the character after the opening quote: the decoded text and what
  follows the closing quote. A control character is refused; a high surrogate followed by
  the escape of a low one is one code point. (A surrogate on its own is a character of a
  Python string that UTF-8 cannot write; the model writes its three bytes.)\<close>

fun scanstring :: "string \<Rightarrow> py_error + (string \<times> string)" where
  "scanstring [] = Inl JSONDecodeError"
| "scanstring (c # cs) =
     (if c = CHR 0x22 then Inr ([], cs)
      else if c = CHR 0x5C then
        (case cs of
           [] \<Rightarrow> Inl JSONDecodeError
         | e # es \<Rightarrow>
             if e = CHR ''u'' then
               (case hex4 es of
                  None \<Rightarrow> Inl JSONDecodeError
                | Some u \<Rightarrow>
                    if 0xD800 \<le> u \<and> u \<le> 0xDBFF \<and> take 2 (drop 4 es) = [CHR 0x5C, CHR ''u''] then
                      (case hex4 (drop 6 es) of
                         None \<Rightarrow> Inl JSONDecodeError
                       | Some l \<Rightarrow>
                           if 0xDC00 \<le> l \<and> l \<le> 0xDFFF
                           then with_prefix (utf8 (0x10000 + (u - 0xD800) * 1024 + (l - 0xDC00)))
                                  (scanstring (drop 10 es))
                           else with_prefix (utf8 u) (scanstring (drop 4 es)))
                    else with_prefix (utf8 u) (scanstring (drop 4 es)))
             else
               (case map_of escape_table e of
                  None \<Rightarrow> Inl JSONDecodeError
                | Some ch \<Rightarrow> with_prefix [ch] (scanstring es)))
      else if (of_char c :: nat) < 32 then Inl JSONDecodeError
      else with_prefix [c] (scanstring cs))"

text \<open>The value of a run of decimal digits.\<close>

definition nat_of_digits :: "string \<Rightarrow> nat" where
  "nat_of_digits ds = foldl (\<lambda>a c. 10 * a + (case map_of hex_table c of None \<Rightarrow> 0 | Some d \<Rightarrow> d)) 0 ds"

text \<open>The exponent of a number, \<open>[eE][-+]?\d+\<close>, or nothing.\<close>

definition exp_part :: "string \<Rightarrow> string" where
  "exp_part r =
     (case r of
        [] \<Rightarrow> []
      | c # r' \<Rightarrow>
          if c \<in> set ''eE'' then
            (let sg = (case r' of [] \<Rightarrow> [] | d # _ \<Rightarrow> if d \<in> set ''+-'' then [d] else []);
                 ds = takeWhile is_digit (drop (length sg) r')
             in if ds = [] then [] else c # sg @ ds)
          else [])"

text \<open>The fraction of a number, \<open>\.\d+\<close>, or nothing.\<close>

definition frac_part :: "string \<Rightarrow> string" where
  "frac_part r =
     (case r of
        [] \<Rightarrow> []
      | c # r' \<Rightarrow> if c = CHR ''.'' \<and> takeWhile is_digit r' \<noteq> [] then c # takeWhile is_digit r' else [])"

text \<open>A number at the start of the text, \<open>(-?(?:0|[1-9]\d*))(\.\d+)?([eE][-+]?\d+)?\<close>: an
  \<open>int\<close> without fraction and exponent, a \<open>float\<close> otherwise.\<close>

definition match_number :: "(string \<Rightarrow> string) \<Rightarrow> string \<Rightarrow> (json \<times> string) option" where
  "match_number fl s =
     (let sign = (case s of [] \<Rightarrow> [] | c # _ \<Rightarrow> if c = CHR ''-'' then [c] else []);
          s1 = drop (length sign) s;
          ip = (case s1 of [] \<Rightarrow> [] | c # _ \<Rightarrow> if c = CHR ''0'' then [c] else takeWhile is_digit s1)
      in if ip = [] then None
         else
           (let r1 = drop (length ip) s1;
                frac = frac_part r1;
                r2 = drop (length frac) r1;
                ex = exp_part r2;
                r3 = drop (length ex) r2
            in if frac = [] \<and> ex = []
               then Some (JInt (if sign = [] then int (nat_of_digits ip)
                                else - int (nat_of_digits ip)), r3)
               else Some (JFloat (fl (sign @ ip @ frac @ ex)), r3)))"

text \<open>\<open>dict(pairs)\<close>: a key that comes again keeps its place and takes the new value.\<close>

definition dict_of :: "(string \<times> json) list \<Rightarrow> (string \<times> json) list" where
  "dict_of pairs = foldl (\<lambda>d kv. AList.update (fst kv) (snd kv) d) [] pairs"

text \<open>A value that is no string, object or array: a literal name, a number, or one of the
  constants \<open>NaN\<close>, \<open>Infinity\<close> and \<open>-Infinity\<close> that Python accepts beyond JSON.\<close>

definition scan_atom :: "(string \<Rightarrow> string) \<Rightarrow> string \<Rightarrow> py_error + (json \<times> string)" where
  "scan_atom fl s =
     (if prefix ''null'' s then Inr (JNull, drop 4 s)
      else if prefix ''true'' s then Inr (JBool True, drop 4 s)
      else if prefix ''false'' s then Inr (JBool False, drop 5 s)
      else
        (case match_number fl s of
           Some res \<Rightarrow> Inr res
         | None \<Rightarrow>
             if prefix ''NaN'' s then Inr (JFloat ''nan'', drop 3 s)
             else if prefix ''Infinity'' s then Inr (JFloat ''inf'', drop 8 s)
             else if prefix ''-Infinity'' s then Inr (JFloat ''-inf'', drop 9 s)
             else Inl JSONDecodeError))"

text \<open>\<open>array_items\<close> reads the elements of an array from its first one on, \<open>object_items\<close>
  the members of an object from the character after the opening quote of a key.\<close>

fun scan_once :: "(string \<Rightarrow> string) \<Rightarrow> nat \<Rightarrow> string \<Rightarrow> py_error + (json \<times> string)"
  and array_items :: "(string \<Rightarrow> string) \<Rightarrow> nat \<Rightarrow> string \<Rightarrow> py_error + (json list \<times> string)"
  and object_items ::
    "(string \<Rightarrow> string) \<Rightarrow> nat \<Rightarrow> string \<Rightarrow> py_error + ((string \<times> json) list \<times> string)"
where
  "scan_once fl 0 s = Inl RecursionError"
| "scan_once fl (Suc n) s =
     (case s of
        [] \<Rightarrow> Inl JSONDecodeError
      | c # cs \<Rightarrow>
          if c = CHR 0x22 then
            (case scanstring cs of Inl e \<Rightarrow> Inl e | Inr (t, r) \<Rightarrow> Inr (JStr t, r))
          else if c = CHR ''{'' then
            (case skip_ws cs of
               [] \<Rightarrow> Inl JSONDecodeError
             | d # ds \<Rightarrow>
                 if d = CHR ''}'' then Inr (JObj [], ds)
                 else if d = CHR 0x22 then
                   (case object_items fl n ds of
                      Inl e \<Rightarrow> Inl e
                    | Inr (kvs, r) \<Rightarrow> Inr (JObj (dict_of kvs), r))
                 else Inl JSONDecodeError)
          else if c = CHR ''['' then
            (case skip_ws cs of
               [] \<Rightarrow> Inl JSONDecodeError
             | d # ds \<Rightarrow>
                 if d = CHR '']'' then Inr (JArr [], ds)
                 else
                   (case array_items fl n (d # ds) of
                      Inl e \<Rightarrow> Inl e
                    | Inr (vs, r) \<Rightarrow> Inr (JArr vs, r)))
          else scan_atom fl s)"
| "array_items fl 0 s = Inl RecursionError"
| "array_items fl (Suc n) s =
     (case scan_once fl n s of
        Inl e \<Rightarrow> Inl e
      | Inr (v, r) \<Rightarrow>
          (case skip_ws r of
             [] \<Rightarrow> Inl JSONDecodeError
           | d # ds \<Rightarrow>
               if d = CHR '']'' then Inr ([v], ds)
               else if d = CHR '','' then
                 (case array_items fl n (skip_ws ds) of
                    Inl e \<Rightarrow> Inl e
                  | Inr (vs, r') \<Rightarrow> Inr (v # vs, r'))
               else Inl JSONDecodeError))"
| "object_items fl 0 s = Inl RecursionError"
| "object_items fl (Suc n) s =
     (case scanstring s of
        Inl e \<Rightarrow> Inl e
      | Inr (k, r) \<Rightarrow>
          (case skip_ws r of
             [] \<Rightarrow> Inl JSONDecodeError
           | d # ds \<Rightarrow>
               if d \<noteq> CHR '':'' then Inl JSONDecodeError
               else
                 (case scan_once fl n (skip_ws ds) of
                    Inl e \<Rightarrow> Inl e
                  | Inr (v, r2) \<Rightarrow>
                      (case skip_ws r2 of
                         [] \<Rightarrow> Inl JSONDecodeError
                       | d2 # ds2 \<Rightarrow>
                           if d2 = CHR ''}'' then Inr ([(k, v)], ds2)
                           else if d2 = CHR '','' then
                             (case skip_ws ds2 of
                                [] \<Rightarrow> Inl JSONDecodeError
                              | q # qs \<Rightarrow>
                                  if q = CHR 0x22 then
                                    (case object_items fl n qs of
                                       Inl e \<Rightarrow> Inl e
                                     | Inr (kvs, r3) \<Rightarrow> Inr ((k, v) # kvs, r3))
                                  else Inl JSONDecodeError)
                           else Inl JSONDecodeError))))"

text \<open>\<open>json.loads(s)\<close>: white space, one value, white space, the end of the text.\<close>

definition json_loads :: "(string \<Rightarrow> string) \<Rightarrow> string \<Rightarrow> py_error + json" where
  "json_loads fl s =
     (case scan_once fl (2 * length s + 1) (skip_ws s) of
        Inl e \<Rightarrow> Inl e
      | Inr (v, r) \<Rightarrow> if skip_ws r = [] then Inr v else Inl JSONDecodeError)"

subsection \<open>\<open>main\<close>\<close>

text \<open>\<open>[json.loads(line) for line in lines if line.strip()]\<close>: the first line that fails
  to decode ends the comprehension with its exception.\<close>

fun loads_lines :: "(string \<Rightarrow> string) \<Rightarrow> string list \<Rightarrow> py_error + json list" where
  "loads_lines fl [] = Inr []"
| "loads_lines fl (l # ls) =
     (if strip l = [] then loads_lines fl ls
      else
        (case json_loads fl l of
           Inl e \<Rightarrow> Inl e
         | Inr v \<Rightarrow> (case loads_lines fl ls of Inl e \<Rightarrow> Inl e | Inr vs \<Rightarrow> Inr (v # vs))))"

text \<open>The \<open>try\<close> statement: \<open>except Exception\<close> catches whatever \<open>json.loads\<close> raises on the
  whole text; what the comprehension raises is not caught.\<close>

definition decode_events :: "(string \<Rightarrow> string) \<Rightarrow> string \<Rightarrow> py_error + json" where
  "decode_events fl data =
     (case json_loads fl data of
        Inr v \<Rightarrow> Inr v
      | Inl _ \<Rightarrow>
          (case loads_lines fl (splitlines data) of
             Inl e \<Rightarrow> Inl e
           | Inr vs \<Rightarrow> Inr (JArr vs)))"

definition default_team :: string where
  "default_team = ''The Real Donkey Killers''"

text \<open>\<open>sys.argv[1] if len(sys.argv) > 1 else "The Real Donkey Killers"\<close>.\<close>

definition team_of :: "string list \<Rightarrow> string" where
  "team_of argv = (if length argv > 1 then argv ! 1 else default_team)"

text \<open>The program: \<open>argv\<close> is \<open>sys.argv\<close>, \<open>input\<close> the text of standard input.\<close>

definition main :: "(string \<Rightarrow> string) \<Rightarrow> string list \<Rightarrow> string \<Rightarrow> run" where
  "main fl argv input =
     (case decode_events fl (strip input) of
        Inl e \<Rightarrow> \<lparr>printed = [], raised = Some e\<rparr>
      | Inr events \<Rightarrow> summarize (team_of argv) events)"

subsection \<open>Event records and the events that give a row\<close>

text \<open>A field of an event, with the default the program gives it; a value that is no dict
  has no fields.\<close>

definition ev_get :: "json \<Rightarrow> string \<Rightarrow> json \<Rightarrow> json" where
  "ev_get ev k d = (case ev of JObj kvs \<Rightarrow> dict_get kvs k d | _ \<Rightarrow> d)"

text \<open>The event is a bet, or a winner announcement, and its message contains the team
  name.\<close>

definition is_bet :: "string \<Rightarrow> json \<Rightarrow> bool" where
  "is_bet team ev =
     (ev_get ev ''type'' (JStr '''') = JStr ''bet''
      \<and> py_in team (ev_get ev ''message'' (JStr '''')) = Inr True)"

definition is_win :: "string \<Rightarrow> json \<Rightarrow> bool" where
  "is_win team ev =
     (ev_get ev ''type'' (JStr '''') = JStr ''winner_announcement''
      \<and> py_in team (ev_get ev ''message'' (JStr '''')) = Inr True)"





section \<open>Properties\<close>

subsection \<open>Decimal text\<close>

text \<open>\<open>str_of_nat\<close> writes a number in decimal: digits only, at least one, and reading them
  back gives the number.\<close>

lemma digit_char_value: "d < 10 \<Longrightarrow> map_of hex_table (digit_char d) = Some d"
proof -
  assume "d < 10"
  then consider "d = 0" | "d = 1" | "d = 2" | "d = 3" | "d = 4" | "d = 5" | "d = 6"
    | "d = 7" | "d = 8" | "d = 9"
    by atomize_elim arith
  then show ?thesis
    by cases (simp_all add: digit_char_def hex_table_def)
qed

lemma digit_char_is_digit: "d < 10 \<Longrightarrow> is_digit (digit_char d)"
proof -
  assume "d < 10"
  then consider "d = 0" | "d = 1" | "d = 2" | "d = 3" | "d = 4" | "d = 5" | "d = 6"
    | "d = 7" | "d = 8" | "d = 9"
    by atomize_elim arith
  then show ?thesis
    by cases (simp_all add: digit_char_def is_digit_def)
qed

lemma nat_of_digits_snoc:
  "nat_of_digits (ds @ [c]) =
     10 * nat_of_digits ds + (case map_of hex_table c of None \<Rightarrow> 0 | Some d \<Rightarrow> d)"
  by (simp add: nat_of_digits_def)

lemma str_of_nat_value: "nat_of_digits (str_of_nat n) = n"
proof (induction n rule: str_of_nat.induct)
  case (1 n)
  show ?case
  proof (cases "n < 10")
    case True
    then show ?thesis
      by (subst str_of_nat.simps) (simp add: nat_of_digits_def digit_char_value)
  next
    case False
    with 1 have "nat_of_digits (str_of_nat (n div 10)) = n div 10" by simp
    with False show ?thesis
      by (subst str_of_nat.simps) (simp add: nat_of_digits_snoc digit_char_value)
  qed
qed

lemma str_of_nat_digits: "str_of_nat n \<noteq> [] \<and> (\<forall>c \<in> set (str_of_nat n). is_digit c)"
proof (induction n rule: str_of_nat.induct)
  case (1 n)
  show ?case
  proof (cases "n < 10")
    case True
    then show ?thesis
      by (subst (1 2) str_of_nat.simps) (simp add: digit_char_is_digit)
  next
    case False
    with 1 have "\<forall>c \<in> set (str_of_nat (n div 10)). is_digit c" by simp
    with False show ?thesis
      by (subst (1 2) str_of_nat.simps) (simp add: digit_char_is_digit)
  qed
qed

subsection \<open>The street\<close>

lemma street_table_lookup:
  "(case map_of street_table n of None \<Rightarrow> str_of_nat n | Some s \<Rightarrow> s) =
     (if n = 0 then ''PRE'' else if n = 3 then ''FLOP'' else if n = 4 then ''TURN''
      else if n = 5 then ''RIVER'' else str_of_nat n)"
  by (simp add: street_table_def)

text \<open>
  C2. On a record whose \<open>community_cards\<close> is absent or a list, \<open>street_from_state\<close> raises
  nothing: it returns \<open>PRE\<close> when the field is absent or the list is empty, \<open>FLOP\<close>, \<open>TURN\<close>
  and \<open>RIVER\<close> for the lengths 3, 4 and 5, and the decimal text of the length for every
  other length. (As a HOL function it has no effect and depends on its argument only.)
\<close>

theorem street_from_state_total:
  "(map_of kvs ''community_cards'' = None \<longrightarrow>
      street_from_state (JObj kvs) = Inr ''PRE'') \<and>
   (map_of kvs ''community_cards'' = Some (JArr cc) \<longrightarrow>
      street_from_state (JObj kvs) =
        Inr (if length cc = 0 then ''PRE'' else if length cc = 3 then ''FLOP''
             else if length cc = 4 then ''TURN'' else if length cc = 5 then ''RIVER''
             else str_of_nat (length cc)))"
  by (simp add: street_from_state_def py_get_def dict_get_def py_len_def street_table_lookup)

theorem street_from_state_total_witness:
  "map_of [(''round'', JInt 3)] ''community_cards'' = None \<and>
   street_from_state (JObj [(''round'', JInt 3)]) = Inr ''PRE'' \<and>
   map_of [(''community_cards'', JArr (replicate 12 (JStr ''Ah'')))] ''community_cards''
     = Some (JArr (replicate 12 (JStr ''Ah''))) \<and>
   street_from_state (JObj [(''community_cards'', JArr (replicate 12 (JStr ''Ah'')))]) = Inr ''12''"
  using street_from_state_total [of "[(''round'', JInt 3)]" "[]"]
    street_from_state_total
      [of "[(''community_cards'', JArr (replicate 12 (JStr ''Ah'')))]" "replicate 12 (JStr ''Ah'')"]
  by (simp add: str_of_nat.simps [of 12] str_of_nat.simps [of "Suc 0"] digit_char_def)

subsection \<open>The amount of a bet row\<close>






subsection \<open>The rows\<close>






subsection \<open>The loop over the events\<close>

text \<open>On an event with a string as message, the membership test is the substring test.\<close>

lemma is_bet_string:
  "ev_get ev ''message'' (JStr '''') = JStr m \<Longrightarrow>
     is_bet team ev = (ev_get ev ''type'' (JStr '''') = JStr ''bet'' \<and> sublist team m)"
  by (simp add: is_bet_def py_in_def)

lemma is_win_string:
  "ev_get ev ''message'' (JStr '''') = JStr m \<Longrightarrow>
     is_win team ev = (ev_get ev ''type'' (JStr '''') = JStr ''winner_announcement'' \<and> sublist team m)"
  by (simp add: is_win_def py_in_def)














lemma stdout_newlines:
  "\<forall>l \<in> set (printed r). LF \<notin> set l \<Longrightarrow>
     length (filter (\<lambda>c. c = LF) (stdout_text r)) = length (printed r)"
proof -
  have "\<forall>l \<in> set ls. LF \<notin> set l \<Longrightarrow>
          length (filter (\<lambda>c. c = LF) (concat (map (\<lambda>l. l @ [LF]) ls))) = length ls" for ls
  proof (induction ls)
    case Nil
    show ?case by simp
  next
    case (Cons l ls)
    then have "filter (\<lambda>c. c = LF) l = []"
      by (auto simp: filter_empty_conv)
    with Cons show ?case by simp
  qed
  then show "\<forall>l \<in> set (printed r). LF \<notin> set l \<Longrightarrow> ?thesis"
    by (simp add: stdout_text_def)
qed



subsection \<open>The decoder\<close>

text \<open>Every part of the decoder that returns a value has read at least one character, and
  strings, literal names and numbers raise the decode error only.\<close>

lemma with_prefix_Inr:
  "with_prefix p r = Inr (s, rest) \<Longrightarrow> \<exists>s'. r = Inr (s', rest)"
  by (auto simp: with_prefix_def split: sum.splits)

lemma with_prefix_Inl: "with_prefix p r = Inl e \<Longrightarrow> r = Inl e"
  by (auto simp: with_prefix_def split: sum.splits)

lemma scanstring_shorter: "scanstring s = Inr (t, r) \<Longrightarrow> length r < length s"
proof (induction s arbitrary: t r rule: length_induct)
  case (1 s)
  show ?case
  proof (cases s)
    case Nil
    with 1 show ?thesis by simp
  next
    case (Cons c cs)
    have ih: "\<And>u t' r'. length u < length s \<Longrightarrow> scanstring u = Inr (t', r') \<Longrightarrow> length r' < length u"
      using 1 by blast
    from 1(2) Cons show ?thesis
      by (auto simp: split: if_splits list.splits option.splits
               dest!: with_prefix_Inr dest: ih [rotated])
  qed
qed

lemma scanstring_error: "scanstring s = Inl e \<Longrightarrow> e = JSONDecodeError"
proof (induction s rule: length_induct)
  case (1 s)
  show ?case
  proof (cases s)
    case Nil
    with 1 show ?thesis by simp
  next
    case (Cons c cs)
    have ih: "\<And>u. length u < length s \<Longrightarrow> scanstring u = Inl e \<Longrightarrow> e = JSONDecodeError"
      using 1 by blast
    from 1(2) Cons show ?thesis
      by (auto simp: split: if_splits list.splits option.splits
               dest!: with_prefix_Inl dest: ih [rotated])
  qed
qed

lemma skip_ws_length: "length (skip_ws s) \<le> length s"
  by (simp add: skip_ws_def length_dropWhile_le)

lemma match_number_shorter:
  assumes "match_number fl s = Some (v, r)"
  shows "length r < length s"
proof -
  define sign where "sign = (case s of [] \<Rightarrow> [] | c # _ \<Rightarrow> if c = CHR ''-'' then [c] else [])"
  define s1 where "s1 = drop (length sign) s"
  define ip where "ip = (case s1 of [] \<Rightarrow> [] | c # _ \<Rightarrow> if c = CHR ''0'' then [c] else takeWhile is_digit s1)"
  define r1 where "r1 = drop (length ip) s1"
  define r2 where "r2 = drop (length (frac_part r1)) r1"
  define r3 where "r3 = drop (length (exp_part r2)) r2"
  have eq: "match_number fl s =
     (if ip = [] then None
      else if frac_part r1 = [] \<and> exp_part r2 = []
           then Some (JInt (if sign = [] then int (nat_of_digits ip)
                            else - int (nat_of_digits ip)), r3)
           else Some (JFloat (fl (sign @ ip @ frac_part r1 @ exp_part r2)), r3))"
    unfolding match_number_def Let_def sign_def s1_def ip_def r1_def r2_def r3_def by simp
  from assms have ne: "ip \<noteq> []" and r: "r = r3"
    unfolding eq by (auto split: if_splits)
  from ne have "s1 \<noteq> []"
    by (auto simp: ip_def)
  with ne have "length r1 < length s1"
    by (simp add: r1_def)
  moreover have "length r3 \<le> length r1"
    by (simp add: r3_def r2_def)
  moreover have "length s1 \<le> length s"
    by (simp add: s1_def)
  ultimately show ?thesis
    using r by simp
qed

lemma drop_literal_shorter: "prefix p s \<Longrightarrow> p \<noteq> [] \<Longrightarrow> 0 < k \<Longrightarrow> length (drop k s) < length s"
  by (cases s) auto

lemma scan_atom_shorter: "scan_atom fl s = Inr (v, r) \<Longrightarrow> length r < length s"
  unfolding scan_atom_def
  by (auto split: if_splits option.splits
      dest: match_number_shorter intro: drop_literal_shorter simp del: length_drop)

lemma scan_atom_error: "scan_atom fl s = Inl e \<Longrightarrow> e = JSONDecodeError"
  unfolding scan_atom_def
  by (auto split: if_splits option.splits)

lemma skip_ws_Cons: "skip_ws s = d # ds \<Longrightarrow> length ds < length s"
  using skip_ws_length [of s] by simp

lemma scan_shorter:
  "(\<forall>s v r. scan_once fl n s = Inr (v, r) \<longrightarrow> length r < length s)
   \<and> (\<forall>s vs r. array_items fl n s = Inr (vs, r) \<longrightarrow> length r < length s)
   \<and> (\<forall>s kvs r. object_items fl n s = Inr (kvs, r) \<longrightarrow> length r < length s)"
proof (induction n)
  case 0
  show ?case by simp
next
  case (Suc n)
  have so: "\<And>s v r. scan_once fl n s = Inr (v, r) \<Longrightarrow> length r < length s"
    and ai: "\<And>s vs r. array_items fl n s = Inr (vs, r) \<Longrightarrow> length r < length s"
    and oi: "\<And>s kvs r. object_items fl n s = Inr (kvs, r) \<Longrightarrow> length r < length s"
    using Suc by blast+
  have so': "\<And>s v r. scan_once fl n (skip_ws s) = Inr (v, r) \<Longrightarrow> length r < length s"
    using so skip_ws_length by (meson less_le_trans)
  have ai': "\<And>s vs r. array_items fl n (skip_ws s) = Inr (vs, r) \<Longrightarrow> length r < length s"
    using ai skip_ws_length by (meson less_le_trans)
  have 1: "length r < length s" if "scan_once fl (Suc n) s = Inr (v, r)" for s v r
    using that
    by (auto split: list.splits if_splits sum.splits
        dest!: scanstring_shorter scan_atom_shorter oi ai skip_ws_Cons)
  have 2: "length r < length s" if "array_items fl (Suc n) s = Inr (vs, r)" for s vs r
    using that
    by (auto split: list.splits if_splits sum.splits
        dest!: so ai' skip_ws_Cons)
  have 3: "length r < length s" if "object_items fl (Suc n) s = Inr (kvs, r)" for s kvs r
    using that
    by (auto split: list.splits if_splits sum.splits
        dest!: scanstring_shorter so' oi skip_ws_Cons)
  from 1 2 3 show ?case by blast
qed

lemma scan_once_shorter: "scan_once fl n s = Inr (v, r) \<Longrightarrow> length r < length s"
  using scan_shorter by blast

text \<open>With a budget of twice the length of the text plus one (one more for the elements of
  an array) the recursion never runs out of budget.\<close>

lemma budget_scan_once:
  assumes ai: "\<forall>s e. 2 * length s + 2 \<le> n \<longrightarrow> array_items fl n s = Inl e \<longrightarrow> e = JSONDecodeError"
    and oi: "\<forall>s e. 2 * length s + 1 \<le> n \<longrightarrow> object_items fl n s = Inl e \<longrightarrow> e = JSONDecodeError"
    and b: "2 * length s + 1 \<le> Suc n"
    and r: "scan_once fl (Suc n) s = Inl e"
  shows "e = JSONDecodeError"
proof (cases s)
  case Nil
  with r show ?thesis by simp
next
  case (Cons c cs)
  consider (str) "c = CHR 0x22"
    | (obj) "c \<noteq> CHR 0x22" "c = CHR ''{''"
    | (arr) "c \<noteq> CHR 0x22" "c \<noteq> CHR ''{''" "c = CHR ''[''"
    | (atom) "c \<noteq> CHR 0x22" "c \<noteq> CHR ''{''" "c \<noteq> CHR ''[''"
    by blast
  then show ?thesis
  proof cases
    case str
    have "scan_once fl (Suc n) s =
        (case scanstring cs of Inl e \<Rightarrow> Inl e | Inr (t, r) \<Rightarrow> Inr (JStr t, r))"
      by (simp add: Cons str)
    with r show ?thesis
      by (auto split: sum.splits dest: scanstring_error)
  next
    case obj
    have e: "scan_once fl (Suc n) s =
            (case skip_ws cs of
               [] \<Rightarrow> Inl JSONDecodeError
             | d # ds \<Rightarrow>
                 if d = CHR ''}'' then Inr (JObj [], ds)
                 else if d = CHR 0x22 then
                   (case object_items fl n ds of
                      Inl e \<Rightarrow> Inl e
                    | Inr (kvs, r) \<Rightarrow> Inr (JObj (dict_of kvs), r))
                 else Inl JSONDecodeError)"
      by (simp add: Cons obj)
    show ?thesis
    proof (cases "skip_ws cs")
      case Nil
      with e r show ?thesis by simp
    next
      case sk: (Cons d ds)
      then have "length ds < length cs" by (rule skip_ws_Cons)
      with b Cons have "2 * length ds + 1 \<le> n" by simp
      then have "object_items fl n ds = Inl e \<Longrightarrow> e = JSONDecodeError"
        using oi by blast
      with e sk r show ?thesis
        by (auto split: sum.splits if_splits)
    qed
  next
    case arr
    have e: "scan_once fl (Suc n) s =
            (case skip_ws cs of
               [] \<Rightarrow> Inl JSONDecodeError
             | d # ds \<Rightarrow>
                 if d = CHR '']'' then Inr (JArr [], ds)
                 else
                   (case array_items fl n (d # ds) of
                      Inl e \<Rightarrow> Inl e
                    | Inr (vs, r) \<Rightarrow> Inr (JArr vs, r)))"
      by (simp add: Cons arr)
    show ?thesis
    proof (cases "skip_ws cs")
      case Nil
      with e r show ?thesis by simp
    next
      case sk: (Cons d ds)
      then have "length ds < length cs" by (rule skip_ws_Cons)
      with b Cons have "2 * length (d # ds) + 2 \<le> n" by simp
      then have "array_items fl n (d # ds) = Inl e \<Longrightarrow> e = JSONDecodeError"
        using ai by blast
      with e sk r show ?thesis
        by (auto split: sum.splits if_splits)
    qed
  next
    case atom
    have "scan_once fl (Suc n) s = scan_atom fl s"
      by (simp add: Cons atom)
    with r show ?thesis
      by (simp add: scan_atom_error)
  qed
qed

lemma budget_array_items:
  assumes so: "\<forall>s e. 2 * length s + 1 \<le> n \<longrightarrow> scan_once fl n s = Inl e \<longrightarrow> e = JSONDecodeError"
    and ai: "\<forall>s e. 2 * length s + 2 \<le> n \<longrightarrow> array_items fl n s = Inl e \<longrightarrow> e = JSONDecodeError"
    and b: "2 * length s + 2 \<le> Suc n"
    and r: "array_items fl (Suc n) s = Inl e"
  shows "e = JSONDecodeError"
proof (cases "scan_once fl n s")
  case (Inl e')
  with r have "e' = e" by simp
  moreover from b have "2 * length s + 1 \<le> n" by simp
  ultimately show ?thesis using Inl so by blast
next
  case (Inr p)
  obtain v t where p: "p = (v, t)" by (cases p)
  with Inr have l: "length t < length s" using scan_once_shorter by blast
  show ?thesis
  proof (cases "skip_ws t")
    case Nil
    with Inr p r show ?thesis by simp
  next
    case (Cons d ds)
    then have "length ds < length t" by (rule skip_ws_Cons)
    moreover have "length (skip_ws ds) \<le> length ds" by (rule skip_ws_length)
    ultimately have "2 * length (skip_ws ds) + 2 \<le> n" using b l by simp
    then have "array_items fl n (skip_ws ds) = Inl e \<Longrightarrow> e = JSONDecodeError"
      using ai by blast
    with Inr p Cons r show ?thesis
      by (auto split: sum.splits if_splits)
  qed
qed

lemma budget_object_items:
  assumes so: "\<forall>s e. 2 * length s + 1 \<le> n \<longrightarrow> scan_once fl n s = Inl e \<longrightarrow> e = JSONDecodeError"
    and oi: "\<forall>s e. 2 * length s + 1 \<le> n \<longrightarrow> object_items fl n s = Inl e \<longrightarrow> e = JSONDecodeError"
    and b: "2 * length s + 1 \<le> Suc n"
    and r: "object_items fl (Suc n) s = Inl e"
  shows "e = JSONDecodeError"
proof (cases "scanstring s")
  case (Inl e')
  with r have "e' = e" by simp
  with Inl show ?thesis by (auto dest: scanstring_error)
next
  case (Inr p)
  obtain k t where p: "p = (k, t)" by (cases p)
  with Inr have l: "length t < length s" using scanstring_shorter by blast
  show ?thesis
  proof (cases "skip_ws t")
    case Nil
    with Inr p r show ?thesis by simp
  next
    case (Cons d ds)
    then have l2: "length ds < length t" by (rule skip_ws_Cons)
    have l3: "length (skip_ws ds) \<le> length ds" by (rule skip_ws_length)
    show ?thesis
    proof (cases "d = CHR '':''")
      case False
      with Inr p Cons r show ?thesis by simp
    next
      case True
      show ?thesis
      proof (cases "scan_once fl n (skip_ws ds)")
        case (Inl e')
        with Inr p Cons True r have "e' = e" by simp
        moreover from b l l2 l3 have "2 * length (skip_ws ds) + 1 \<le> n" by simp
        ultimately show ?thesis using Inl so by blast
      next
        case sr: (Inr q)
        obtain v t2 where q: "q = (v, t2)" by (cases q)
        with sr have l4: "length t2 < length (skip_ws ds)" using scan_once_shorter by blast
        show ?thesis
        proof (cases "skip_ws t2")
          case Nil
          with Inr p Cons True sr q r show ?thesis by simp
        next
          case c2: (Cons d2 ds2)
          then have l5: "length ds2 < length t2" by (rule skip_ws_Cons)
          show ?thesis
          proof (cases "skip_ws ds2")
            case Nil
            with Inr p Cons True sr q c2 r show ?thesis by (simp split: if_splits)
          next
            case c3: (Cons q' qs)
            then have "length qs < length ds2" by (rule skip_ws_Cons)
            with b l l2 l3 l4 l5 have "2 * length qs + 1 \<le> n" by simp
            then have "object_items fl n qs = Inl e \<Longrightarrow> e = JSONDecodeError"
              using oi by blast
            with Inr p Cons True sr q c2 c3 r show ?thesis
              by (auto split: sum.splits if_splits)
          qed
        qed
      qed
    qed
  qed
qed

lemma scan_budget:
  "(\<forall>s e. 2 * length s + 1 \<le> n \<longrightarrow> scan_once fl n s = Inl e \<longrightarrow> e = JSONDecodeError)
   \<and> (\<forall>s e. 2 * length s + 2 \<le> n \<longrightarrow> array_items fl n s = Inl e \<longrightarrow> e = JSONDecodeError)
   \<and> (\<forall>s e. 2 * length s + 1 \<le> n \<longrightarrow> object_items fl n s = Inl e \<longrightarrow> e = JSONDecodeError)"
proof (induction n)
  case 0
  show ?case by simp
next
  case (Suc n)
  then have so: "\<forall>s e. 2 * length s + 1 \<le> n \<longrightarrow> scan_once fl n s = Inl e \<longrightarrow> e = JSONDecodeError"
    and ai: "\<forall>s e. 2 * length s + 2 \<le> n \<longrightarrow> array_items fl n s = Inl e \<longrightarrow> e = JSONDecodeError"
    and oi: "\<forall>s e. 2 * length s + 1 \<le> n \<longrightarrow> object_items fl n s = Inl e \<longrightarrow> e = JSONDecodeError"
    by simp_all
  show ?case
    using budget_scan_once [OF ai oi] budget_array_items [OF so ai] budget_object_items [OF so oi]
    by blast
qed

text \<open>The budget that \<open>json_loads\<close> starts with is never used up: the only exception of
  the decoder is the decode error.\<close>

lemma json_loads_error: "json_loads fl s = Inl e \<Longrightarrow> e = JSONDecodeError"
proof -
  assume a: "json_loads fl s = Inl e"
  have "2 * length (skip_ws s) + 1 \<le> 2 * length s + 1"
    using skip_ws_length [of s] by simp
  then have "scan_once fl (2 * length s + 1) (skip_ws s) = Inl e \<Longrightarrow> e = JSONDecodeError"
    using scan_budget by blast
  with a show ?thesis
    by (auto simp: json_loads_def split: sum.splits if_splits)
qed

text \<open>The dict of an object: every key once, with the value of its last member.\<close>

lemma dict_of_distinct: "distinct (map fst (dict_of pairs))"
proof -
  have "distinct (map fst d) \<Longrightarrow>
          distinct (map fst (foldl (\<lambda>d kv. AList.update (fst kv) (snd kv) d) d pairs))" for d
    by (induction pairs arbitrary: d) (simp_all add: distinct_update)
  then show ?thesis
    by (simp add: dict_of_def)
qed

lemma dict_of_lookup: "map_of (dict_of pairs) = map_of (rev pairs)"
proof -
  have "map_of (foldl (\<lambda>d kv. AList.update (fst kv) (snd kv) d) d pairs)
          = map_of d ++ map_of (rev pairs)" for d
  proof (induction pairs arbitrary: d)
    case Nil
    show ?case by simp
  next
    case (Cons p ps)
    have "map_of (AList.update (fst p) (snd p) d) ++ map_of (rev ps)
            = map_of d ++ (map_of [p] ++ map_of (rev ps))"
      by (cases p) (auto simp: update_conv' map_add_def fun_eq_iff split: option.splits)
    with Cons [of "AList.update (fst p) (snd p) d"] show ?case
      by simp
  qed
  from this [of "[]"] show ?thesis
    by (simp add: dict_of_def)
qed

subsection \<open>Decoding the input\<close>


text \<open>When the whole text decodes, the program is the main pass over the value.\<close>

lemma main_decoded:
  "json_loads fl (strip input) = Inr v \<Longrightarrow> main fl argv input = summarize (team_of argv) v"
  by (simp add: main_def decode_events_def)





lemma loads_lines_error: "loads_lines fl ls = Inl e \<Longrightarrow> e = JSONDecodeError"
  by (induction ls) (auto split: if_splits sum.splits dest: json_loads_error)




lemma process_event_string: "process_event team (JStr k) = Inl AttributeError"
  by (simp add: process_event_def py_get_def)

text \<open>
  C10. When the input decodes as one JSON object that is not empty, the loop runs over its
  keys; the first key is a string, \<open>ev.get\<close> on it raises \<open>AttributeError\<close>, and the run ends
  with that exception after the header, the only line printed: no table, and no decode
  error. Such an input exists.
\<close>

theorem object_input_raises:
  "(json_loads fl (strip input) = Inr (JObj kvs) \<and> kvs \<noteq> [] \<longrightarrow>
      py_iter (JObj kvs) = Inr (map (\<lambda>kv. JStr (fst kv)) kvs)
      \<and> process_event (team_of argv) (JStr (fst (hd kvs))) = Inl AttributeError
      \<and> main fl argv input = \<lparr>printed = [header], raised = Some AttributeError\<rparr>
      \<and> exit_status (main fl argv input) = 1)
   \<and> (\<exists>inp. main fl argv inp = \<lparr>printed = [header], raised = Some AttributeError\<rparr>)"
proof (intro conjI impI)
  assume a: "json_loads fl (strip input) = Inr (JObj kvs) \<and> kvs \<noteq> []"
  then obtain kv rest where k: "kvs = kv # rest"
    by (cases kvs) auto
  show "py_iter (JObj kvs) = Inr (map (\<lambda>kv. JStr (fst kv)) kvs)"
    by (simp add: py_iter_def)
  show "process_event (team_of argv) (JStr (fst (hd kvs))) = Inl AttributeError"
    by (rule process_event_string)
  from a show m: "main fl argv input = \<lparr>printed = [header], raised = Some AttributeError\<rparr>"
    by (simp add: main_def decode_events_def summarize_def py_iter_def k process_event_string)
  then show "exit_status (main fl argv input) = 1"
    by (simp add: exit_status_def)
next
  have "json_loads fl (strip ''{\"a\":1}'') = Inr (JObj [(''a'', JInt 1)])"
    by code_simp
  then have "main fl argv ''{\"a\":1}'' = \<lparr>printed = [header], raised = Some AttributeError\<rparr>"
    by (simp add: main_def decode_events_def summarize_def py_iter_def process_event_string)
  then show "\<exists>inp. main fl argv inp = \<lparr>printed = [header], raised = Some AttributeError\<rparr>"
    by blast
qed

theorem object_input_raises_witness:
  "json_loads id (strip ''{\"type\":\"winner_announcement\",\"message\":\"T won\"}'')
     = Inr (JObj [(''type'', JStr ''winner_announcement''), (''message'', JStr ''T won'')])
   \<and> [(''type'', JStr ''winner_announcement''), (''message'', JStr ''T won'')] \<noteq> []
   \<and> main id [''summarize_logs.py'', ''T''] ''{\"type\":\"winner_announcement\",\"message\":\"T won\"}''
       = \<lparr>printed = [header], raised = Some AttributeError\<rparr>"
proof -
  have h: "json_loads id (strip ''{\"type\":\"winner_announcement\",\"message\":\"T won\"}'')
     = Inr (JObj [(''type'', JStr ''winner_announcement''), (''message'', JStr ''T won'')])
   \<and> [(''type'', JStr ''winner_announcement''), (''message'', JStr ''T won'')] \<noteq> []"
    by code_simp
  from object_input_raises [of id "''{\"type\":\"winner_announcement\",\"message\":\"T won\"}''"
      "[(''type'', JStr ''winner_announcement''), (''message'', JStr ''T won'')]"
      "[''summarize_logs.py'', ''T'']", THEN conjunct1, THEN mp, OF h] h
  show ?thesis
    by blast
qed

text \<open>Where the line by line decoding runs and gives the events of the array, the two
  inputs give the same run.\<close>

lemma json_lines_agree:
  assumes "json_loads fl (strip a) = Inr (JArr evs)"
    and "json_loads fl (strip l) = Inl e"
    and "loads_lines fl (splitlines (strip l)) = Inr evs"
  shows "main fl argv a = main fl argv l"
  using assms by (simp add: main_def decode_events_def)

text \<open>
  C5. One event record as a JSON array and as JSON lines. The array gives the header and
  the row of the event. The same record on one line of its own decodes as a whole, to a
  dict, so the line by line decoding never runs: the loop takes the keys of the record as
  events and raises \<open>AttributeError\<close> after the header. The two outputs differ.
\<close>

theorem single_record_json_lines_differs:
  "main id [''summarize_logs.py'']
     ''[{\"type\":\"bet\",\"message\":\"The Real Donkey Killers: bet of 40 (raise)\",\"game_state\":{\"round\":3,\"community_cards\":[],\"pot\":100,\"current_buy_in\":40}}]''
     = \<lparr>printed = [header,
                     ''3'' @ [TAB] @ ''PRE'' @ [TAB] @ ''raise'' @ [TAB] @ ''40'' @ [TAB] @ ''100''
                       @ [TAB] @ ''40'' @ [TAB] @ ''The Real Donkey Killers: bet of 40 (raise)''],
        raised = None\<rparr>
   \<and> main id [''summarize_logs.py'']
     ''{\"type\":\"bet\",\"message\":\"The Real Donkey Killers: bet of 40 (raise)\",\"game_state\":{\"round\":3,\"community_cards\":[],\"pot\":100,\"current_buy_in\":40}}''
     = \<lparr>printed = [header], raised = Some AttributeError\<rparr>"
  by code_simp

end
